theory Spec2Isabelle
  imports Main "HOL-Library.AList"
begin

section \<open>Python values, strings and dictionaries\<close>

text \<open>
  The tool's arguments arrive in \<^verbatim>\<open>tool_parameters: dict[str, Any]\<close>. The three entries
  the code reads are declared as strings in the tool's schema, and a caller may leave a
  key out or bind it to \<^verbatim>\<open>None\<close>; so a value is \<^verbatim>\<open>None\<close> or a \<^verbatim>\<open>str\<close>. A \<^verbatim>\<open>str\<close> is the
  list of its code points; the model has the code points below 256.
\<close>

datatype pyval = PyNone | PyStr string

text \<open>Python truthiness (\<^verbatim>\<open>not x\<close> is its negation): \<^verbatim>\<open>None\<close> and \<^verbatim>\<open>""\<close> are falsy.\<close>

fun truthy :: "pyval \<Rightarrow> bool" where
  "truthy PyNone = False"
| "truthy (PyStr s) = (s \<noteq> [])"

text \<open>
  \<^verbatim>\<open>str.strip()\<close> removes the characters for which \<^verbatim>\<open>str.isspace\<close> holds from both
  ends: below 256 these are U+0009..U+000D, U+001C..U+0020, U+0085 and U+00A0.
\<close>

definition whitespace :: "char list" where
  "whitespace = [CHR 0x09, CHR 0x0A, CHR 0x0B, CHR 0x0C, CHR 0x0D,
                 CHR 0x1C, CHR 0x1D, CHR 0x1E, CHR 0x1F, CHR 0x20, CHR 0x85, CHR 0xA0]"

definition isspace :: "char \<Rightarrow> bool" where
  "isspace c = (c \<in> set whitespace)"

definition strip :: "string \<Rightarrow> string" where
  "strip s = rev (dropWhile isspace (rev (dropWhile isspace s)))"

definition startswith :: "string \<Rightarrow> string \<Rightarrow> bool" where
  "startswith s p = (take (length p) s = p)"

text \<open>
  A \<^verbatim>\<open>dict\<close> is an association list with distinct keys, in insertion order.
  \<^verbatim>\<open>d.get(k)\<close> is \<^const>\<open>map_of\<close> (\<^verbatim>\<open>None\<close> for a missing key), \<^verbatim>\<open>d[k] = v\<close> is
  \<^const>\<open>AList.update\<close> (an existing key keeps its place, a new one goes last), and \<^verbatim>\<open>k in d\<close>
  is membership in the keys.
\<close>

type_synonym ('k, 'v) dict = "('k \<times> 'v) list"

definition get_default :: "('k, 'v) dict \<Rightarrow> 'k \<Rightarrow> 'v \<Rightarrow> 'v" where
  "get_default d k dflt = (case map_of d k of None \<Rightarrow> dflt | Some v \<Rightarrow> v)"

definition contains :: "('k, 'v) dict \<Rightarrow> 'k \<Rightarrow> bool" where
  "contains d k = (k \<in> set (map fst d))"


section \<open>Files, messages and the object store\<close>

text \<open>
  \<^verbatim>\<open>core.file.File\<close> is declared outside this file; the code reads \<^verbatim>\<open>filename\<close>, \<^verbatim>\<open>type\<close>
  and \<^verbatim>\<open>size\<close>, and allows each to be missing (\<^verbatim>\<open>f.filename or ""\<close>).
\<close>

record File =
  filename :: pyval
  file_type :: "string option"
  file_size :: "int option"

text \<open>
  A \<^verbatim>\<open>ToolInvokeMessage\<close> is a text message (what \<^verbatim>\<open>create_text_message\<close> of the base
  class builds) or a message of type \<^verbatim>\<open>FILE\<close> with its \<^verbatim>\<open>meta\<close> dictionary.
\<close>

datatype meta_value = MetaFile File | MetaStr string

datatype ToolInvokeMessage =
    TextMessage string
  | FileMessage "(string, meta_value) dict"

definition create_text_message :: "string \<Rightarrow> ToolInvokeMessage" where
  "create_text_message text = TextMessage text"

datatype py_exc = AttributeError

text \<open>
  \<^verbatim>\<open>tool_file_map: dict[str, dict[str, File]]\<close> is a dictionary object that the caller and
  the tool may both hold, and its values are dictionary objects again, which line 176
  changes in place. So both kinds of dictionary live in a store: an address denotes an
  outer dictionary (tool name to the address of an inner dictionary) and an inner
  dictionary (parameter name to file), and \<^verbatim>\<open>{}\<close> allocates the next unused address. Two
  tool names may be bound to the same inner dictionary object.
\<close>

type_synonym addr = nat

record heap =
  outer_dicts :: "addr \<Rightarrow> (string, addr) dict"
  inner_dicts :: "addr \<Rightarrow> (string, File) dict"
  next_addr :: addr

definition alloc_outer :: "heap \<Rightarrow> addr \<times> heap" where
  "alloc_outer h =
     (next_addr h,
      h\<lparr>outer_dicts := (outer_dicts h)(next_addr h := []), next_addr := Suc (next_addr h)\<rparr>)"

definition alloc_inner :: "heap \<Rightarrow> addr \<times> heap" where
  "alloc_inner h =
     (next_addr h,
      h\<lparr>inner_dicts := (inner_dicts h)(next_addr h := []), next_addr := Suc (next_addr h)\<rparr>)"

record FileDispatcherTool =
  files :: "File list"
  file_map :: "(pyval, File) dict"
  tool_file_map :: addr


section \<open>Construction\<close>

text \<open>
  \<^verbatim>\<open>self.file_map = {f.filename: f for f in files}\<close>: the comprehension stores the files
  one after the other, from the empty dictionary.
\<close>

definition build_file_map :: "File list \<Rightarrow> (pyval, File) dict" where
  "build_file_map fs = foldl (\<lambda>d f. AList.update (filename f) f d) [] fs"

text \<open>
  \<^verbatim>\<open>__init__(files, tool_file_map=None)\<close>. The third assignment is
  \<^verbatim>\<open>self.tool_file_map = tool_file_map or {}\<close>: \<^verbatim>\<open>or\<close> takes its right operand when the
  left one is falsy, and both \<^verbatim>\<open>None\<close> and an empty dictionary are falsy. The entity and
  the runtime that the constructor builds afterwards do not touch the three fields.
\<close>

definition init :: "File list \<Rightarrow> addr option \<Rightarrow> heap \<Rightarrow> FileDispatcherTool \<times> heap" where
  "init fs tfm h =
     (let (a, h') = (case tfm of
                       None \<Rightarrow> alloc_outer h
                     | Some a \<Rightarrow> if outer_dicts h a = [] then alloc_outer h else (a, h))
      in (\<lparr>files = fs, file_map = build_file_map fs, tool_file_map = a\<rparr>, h'))"


section \<open>Dispatch\<close>

text \<open>
  A run of the generator \<^verbatim>\<open>_invoke\<close>, driven to its end: the messages it yielded, the
  exception that ended it (if one did), the tool object and the store afterwards.
\<close>

record invocation =
  yielded :: "ToolInvokeMessage list"
  raised :: "py_exc option"
  tool_after :: FileDispatcherTool
  heap_after :: heap

text \<open>The single quote of the f-strings.\<close>

definition sq :: string where
  "sq = [CHR 0x27]"

text \<open>
  Lines 174 to 176, on the outer dictionary at address \<open>a\<close>. Lines 174 and 175 bind a new
  tool name to a newly allocated empty inner dictionary. Line 176 looks the tool name up
  and stores the file in that inner dictionary object, in place; the key is there after
  line 175, so the lookup does not fail.
\<close>

definition store_file :: "addr \<Rightarrow> string \<Rightarrow> string \<Rightarrow> File \<Rightarrow> heap \<Rightarrow> heap" where
  "store_file a tool_name param_name file h =
     (let h1 = (if \<not> contains (outer_dicts h a) tool_name
                then (let (i, h') = alloc_inner h
                      in h'\<lparr>outer_dicts :=
                            (outer_dicts h')(a := AList.update tool_name i (outer_dicts h' a))\<rparr>)
                else h)
      in case map_of (outer_dicts h1 a) tool_name of
           Some i \<Rightarrow>
             h1\<lparr>inner_dicts :=
                  (inner_dicts h1)(i := AList.update param_name file (inner_dicts h1 i))\<rparr>
         | None \<Rightarrow> h1)"

text \<open>
  Lines 131 to 133: \<^verbatim>\<open>tool_parameters.get("file_id")\<close>, \<^verbatim>\<open>tool_parameters.get("target")\<close>
  and \<^verbatim>\<open>tool_parameters.get("parameter_name", "file")\<close>. The default stands in for a
  missing key only: a key bound to \<^verbatim>\<open>None\<close> gives \<^verbatim>\<open>None\<close>.
\<close>

definition file_id_of :: "(string, pyval) dict \<Rightarrow> pyval" where
  "file_id_of tool_parameters = get_default tool_parameters ''file_id'' PyNone"

definition target_of :: "(string, pyval) dict \<Rightarrow> pyval" where
  "target_of tool_parameters = get_default tool_parameters ''target'' PyNone"

definition parameter_name_of :: "(string, pyval) dict \<Rightarrow> pyval" where
  "parameter_name_of tool_parameters =
     get_default tool_parameters ''parameter_name'' (PyStr ''file'')"

text \<open>
  \<^verbatim>\<open>_invoke(self, user_id, tool_parameters, ...)\<close>; the identifiers of the user, the
  conversation, the app and the message are not read. \<open>stop\<close> is \<^verbatim>\<open>yield m; return\<close>
  after the earlier messages: the run ends normally with the store it started from.
  \<^verbatim>\<open>None.strip()\<close> raises \<^verbatim>\<open>AttributeError\<close>; both \<^verbatim>\<open>strip\<close> calls come before the
  first \<^verbatim>\<open>yield\<close> of their branch. A \<^verbatim>\<open>File\<close> object is truthy, so \<^verbatim>\<open>not file\<close> holds
  exactly when the key is missing.
\<close>

definition invoke ::
  "FileDispatcherTool \<Rightarrow> (string, pyval) dict \<Rightarrow> heap \<Rightarrow> invocation" where
  "invoke self tool_parameters h =
     (let file_id = file_id_of tool_parameters;
          target = target_of tool_parameters;
          parameter_name = parameter_name_of tool_parameters;
          stop = (\<lambda>ms. \<lparr>yielded = ms, raised = None, tool_after = self, heap_after = h\<rparr>)
      in
      if \<not> truthy file_id then stop [create_text_message ''File ID is required'']
      else case map_of (file_map self) file_id of
        None \<Rightarrow>
          stop [create_text_message
                  (''File with ID '' @ sq @ (case file_id of PyStr s \<Rightarrow> s | PyNone \<Rightarrow> ''None'')
                     @ sq @ '' not found'')]
      | Some file \<Rightarrow>
          if \<not> truthy target then stop [create_text_message ''Target is required'']
          else if target = PyStr ''self'' then
            stop [FileMessage [(''file'', MetaFile file), (''target'', MetaStr ''self'')]]
          else
            (case target of
               PyNone \<Rightarrow> \<lparr>yielded = [], raised = Some AttributeError,
                           tool_after = self, heap_after = h\<rparr>
             | PyStr t \<Rightarrow>
                (case parameter_name of
                   PyNone \<Rightarrow> \<lparr>yielded = [], raised = Some AttributeError,
                               tool_after = self, heap_after = h\<rparr>
                 | PyStr p \<Rightarrow>
                    (let tool_name0 = strip t;
                         param_name = strip p;
                         prefixed = startswith tool_name0 ''functions.'';
                         tool_name = (if prefixed then drop 10 tool_name0 else tool_name0);
                         note = (if prefixed
                                 then [create_text_message
                                         (''Note: Removed '' @ sq @ ''functions.'' @ sq
                                            @ '' prefix. Using tool name: '' @ sq @ tool_name @ sq)]
                                 else [])
                     in
                     if tool_name = [] then
                       stop (note @ [create_text_message ''Tool name cannot be empty''])
                     else if param_name = [] then
                       stop (note @ [create_text_message ''Parameter name cannot be empty''])
                     else
                       \<lparr>yielded = note @
                          [FileMessage [(''file'', MetaFile file),
                                        (''target_tool'', MetaStr tool_name),
                                        (''parameter_name'', MetaStr param_name)]],
                        raised = None,
                        tool_after = self,
                        heap_after =
                          store_file (tool_file_map self) tool_name param_name file h\<rparr>))))"


section \<open>Observations used in the statements\<close>

text \<open>
  The inner dictionary that the table at address \<open>a\<close> binds a tool name to, as a value,
  and reading \<^verbatim>\<open>table[tool_name][param_name]\<close>; \<open>None\<close> where a key is missing.
\<close>

definition inner_of :: "heap \<Rightarrow> addr \<Rightarrow> string \<Rightarrow> (string, File) dict option" where
  "inner_of h a tool_name =
     (case map_of (outer_dicts h a) tool_name of
        None \<Rightarrow> None
      | Some i \<Rightarrow> Some (inner_dicts h i))"

definition routing_entry :: "heap \<Rightarrow> addr \<Rightarrow> string \<Rightarrow> string \<Rightarrow> File option" where
  "routing_entry h a tool_name param_name =
     (case inner_of h a tool_name of None \<Rightarrow> None | Some d \<Rightarrow> map_of d param_name)"


text \<open>
  Every reference in the table at \<open>a\<close> denotes a dictionary that has been allocated. This
  holds of every store of a Python program: a new object differs from all that exist.
\<close>

definition refs_allocated :: "heap \<Rightarrow> addr \<Rightarrow> bool" where
  "refs_allocated h a = list_all (\<lambda>(k, i). i < next_addr h) (outer_dicts h a)"

text \<open>
  The tool name that lines 157 to 162 compute from a target string: trimmed, then without
  one leading \<^verbatim>\<open>functions.\<close>; and the note of line 163, when the prefix was there.
\<close>

definition tool_name_of :: "string \<Rightarrow> string" where
  "tool_name_of t =
     (if startswith (strip t) ''functions.'' then drop 10 (strip t) else strip t)"

definition prefix_removed :: "string \<Rightarrow> ToolInvokeMessage" where
  "prefix_removed tool_name =
     TextMessage (''Note: Removed '' @ sq @ ''functions.'' @ sq
                    @ '' prefix. Using tool name: '' @ sq @ tool_name @ sq)"

definition prefix_note :: "string \<Rightarrow> ToolInvokeMessage list" where
  "prefix_note t =
     (if startswith (strip t) ''functions.'' then [prefix_removed (tool_name_of t)] else [])"

definition routed_message :: "File \<Rightarrow> string \<Rightarrow> string \<Rightarrow> ToolInvokeMessage" where
  "routed_message file tool_name param_name =
     FileMessage [(''file'', MetaFile file),
                  (''target_tool'', MetaStr tool_name),
                  (''parameter_name'', MetaStr param_name)]"

definition self_message :: "File \<Rightarrow> ToolInvokeMessage" where
  "self_message file = FileMessage [(''file'', MetaFile file), (''target'', MetaStr ''self'')]"


section \<open>Concrete inputs\<close>

text \<open>The catalog of the scenarios, a second file, and a second version of the report.\<close>

definition report :: File where
  "report = \<lparr>filename = PyStr ''report.pdf'', file_type = Some ''document'',
              file_size = Some 1024\<rparr>"

definition slides :: File where
  "slides = \<lparr>filename = PyStr ''slides.pptx'', file_type = Some ''document'',
              file_size = Some 2048\<rparr>"

definition report_v2 :: File where
  "report_v2 = report\<lparr>file_size := Some 4096\<rparr>"

text \<open>A file whose filename is the empty string.\<close>

definition nameless :: File where
  "nameless = \<lparr>filename = PyStr [], file_type = Some ''document'', file_size = Some 1\<rparr>"

text \<open>A store in which nothing is allocated yet.\<close>

definition empty_store :: heap where
  "empty_store = \<lparr>outer_dicts = (\<lambda>a. []), inner_dicts = (\<lambda>a. []), next_addr = 0\<rparr>"

text \<open>A store in which the caller has made one dictionary, at address 0, and left it empty.\<close>

definition caller_store :: heap where
  "caller_store = snd (alloc_outer empty_store)"


definition arguments :: "string \<Rightarrow> string \<Rightarrow> string \<Rightarrow> (string, pyval) dict" where
  "arguments fid t p =
     [(''file_id'', PyStr fid), (''target'', PyStr t), (''parameter_name'', PyStr p)]"

text \<open>The tool over the two files with a table of its own, and the store it lives in.\<close>

definition tool0 :: FileDispatcherTool where
  "tool0 = fst (init [report, slides] None empty_store)"

definition store0 :: heap where
  "store0 = snd (init [report, slides] None empty_store)"

text \<open>The tool constructed with the caller's empty dictionary, and the store afterwards.\<close>

definition shared_tool :: FileDispatcherTool where
  "shared_tool = fst (init [report] (Some 0) caller_store)"

definition shared_store :: heap where
  "shared_store = snd (init [report] (Some 0) caller_store)"


text \<open>The tool over the file with the empty filename.\<close>

definition nameless_tool :: FileDispatcherTool where
  "nameless_tool = fst (init [nameless] None empty_store)"

definition nameless_store :: heap where
  "nameless_store = snd (init [nameless] None empty_store)"


section \<open>Dictionaries and the catalog\<close>

lemma find_Some_set: "List.find P xs = Some x \<Longrightarrow> x \<in> set xs \<and> P x"
  by (induction xs) (auto split: if_splits)

lemma find_rev_last_filter:
  "List.find P (rev xs) = (if filter P xs = [] then None else Some (last (filter P xs)))"
  by (induction xs rule: rev_induct) simp_all

lemma map_of_build_file_map:
  "map_of (build_file_map fs) k = List.find (\<lambda>f. filename f = k) (rev fs)"
  unfolding build_file_map_def
  by (induction fs rule: rev_induct) (simp_all add: AList.update_conv')

lemma keys_build_file_map: "fst ` set (build_file_map fs) = filename ` set fs"
  unfolding build_file_map_def
  by (induction fs rule: rev_induct) (simp_all add: AList.dom_update)

lemma build_file_map_resolves:
  assumes "distinct (map filename fs)" and "f \<in> set fs"
  shows "map_of (build_file_map fs) (filename f) = Some f"
proof -
  have "List.find (\<lambda>g. filename g = filename f) (rev fs) \<noteq> None"
    using assms(2) by (auto simp: find_None_iff)
  then obtain g where g: "List.find (\<lambda>g. filename g = filename f) (rev fs) = Some g"
    by blast
  from find_Some_set [OF g] have "g \<in> set fs" "filename g = filename f"
    by simp_all
  moreover have "inj_on filename (set fs)"
    using assms(1) by (simp add: distinct_map)
  ultimately have "g = f"
    using assms(2) by (auto dest: inj_onD)
  with g show ?thesis by (simp add: map_of_build_file_map)
qed

lemma contains_iff: "contains d k \<longleftrightarrow> map_of d k \<noteq> None"
  by (simp add: contains_def map_of_eq_None_iff)


section \<open>Storing a file in the table\<close>

lemma store_file_new:
  assumes "map_of (outer_dicts h a) T = None"
  shows "store_file a T P f h =
           h\<lparr>outer_dicts := (outer_dicts h)(a := AList.update T (next_addr h) (outer_dicts h a)),
             inner_dicts := (inner_dicts h)(next_addr h := [(P, f)]),
             next_addr := Suc (next_addr h)\<rparr>"
  using assms
  by (simp add: store_file_def alloc_inner_def contains_iff AList.update_conv')

lemma store_file_old:
  assumes "map_of (outer_dicts h a) T = Some i"
  shows "store_file a T P f h =
           h\<lparr>inner_dicts := (inner_dicts h)(i := AList.update P f (inner_dicts h i))\<rparr>"
  using assms
  by (simp add: store_file_def contains_iff)


lemma inner_of_store_file:
  "inner_of (store_file a T P f h) a T =
     Some (AList.update P f (case inner_of h a T of None \<Rightarrow> [] | Some d \<Rightarrow> d))"
proof (cases "map_of (outer_dicts h a) T")
  case None
  then show ?thesis
    by (simp add: store_file_new inner_of_def AList.update_conv')
next
  case (Some i)
  then show ?thesis
    by (simp add: store_file_old inner_of_def)
qed

lemma routing_entry_store_file:
  "routing_entry (store_file a T P f h) a T P = Some f"
  by (simp add: routing_entry_def inner_of_store_file AList.update_conv')

lemma outer_store_file_other_name:
  "T' \<noteq> T \<Longrightarrow>
     map_of (outer_dicts (store_file a T P f h) a) T' = map_of (outer_dicts h a) T'"
  by (cases "map_of (outer_dicts h a) T")
    (simp_all add: store_file_new store_file_old AList.update_conv')

lemma outer_store_file_other_table:
  "a' \<noteq> a \<Longrightarrow> outer_dicts (store_file a T P f h) a' = outer_dicts h a'"
  by (cases "map_of (outer_dicts h a) T") (simp_all add: store_file_new store_file_old)

lemma outer_store_file_known_name:
  "map_of (outer_dicts h a) T \<noteq> None \<Longrightarrow>
     outer_dicts (store_file a T P f h) = outer_dicts h"
  by (cases "map_of (outer_dicts h a) T") (simp_all add: store_file_old)







section \<open>Construction: which table the tool holds\<close>

lemma init_fields:
  "files (fst (init fs tfm h)) = fs \<and> file_map (fst (init fs tfm h)) = build_file_map fs"
  by (simp add: init_def alloc_outer_def Let_def split: option.splits)

lemma init_resolves:
  assumes "init fs tfm h0 = (self, h)" and "distinct (map filename fs)" and "f \<in> set fs"
  shows "map_of (file_map self) (filename f) = Some f"
proof -
  have "file_map self = build_file_map fs"
    using init_fields [of fs tfm h0] assms(1) by simp
  with assms(2,3) show ?thesis
    by (simp add: build_file_map_resolves)
qed

lemma init_nonempty_table:
  "outer_dicts h a \<noteq> [] \<Longrightarrow>
     tool_file_map (fst (init fs (Some a) h)) = a \<and> snd (init fs (Some a) h) = h"
  by (simp add: init_def)

lemma init_no_table:
  "tool_file_map (fst (init fs None h)) = next_addr h \<and>
   outer_dicts (snd (init fs None h)) (next_addr h) = [] \<and>
   (\<forall>a. a \<noteq> next_addr h \<longrightarrow> outer_dicts (snd (init fs None h)) a = outer_dicts h a)"
  by (simp add: init_def alloc_outer_def)

lemma init_refs_allocated:
  "refs_allocated (snd (init fs None h)) (tool_file_map (fst (init fs None h)))"
  by (simp add: init_def alloc_outer_def refs_allocated_def)

lemma init_empty_table:
  "outer_dicts h a = [] \<Longrightarrow> a < next_addr h \<Longrightarrow>
     tool_file_map (fst (init fs (Some a) h)) = next_addr h \<and>
     tool_file_map (fst (init fs (Some a) h)) \<noteq> a"
  by (simp add: init_def alloc_outer_def)


section \<open>Dispatch, case by case\<close>

lemma strip_self: "strip ''self'' = ''self''"
  by (simp add: strip_def isspace_def whitespace_def)

lemma strip_Nil: "strip [] = []"
  by (simp add: strip_def)

lemma tool_name_of_nonempty: "tool_name_of t \<noteq> [] \<Longrightarrow> t \<noteq> []"
  by (auto simp: tool_name_of_def strip_def startswith_def)

lemma invoke_file_id_required:
  "\<not> truthy (file_id_of tp) \<Longrightarrow>
     invoke self tp h =
       \<lparr>yielded = [TextMessage ''File ID is required''], raised = None,
        tool_after = self, heap_after = h\<rparr>"
  by (simp add: invoke_def Let_def create_text_message_def)

lemma invoke_not_found:
  "file_id_of tp = PyStr fid \<Longrightarrow> fid \<noteq> [] \<Longrightarrow> map_of (file_map self) (PyStr fid) = None \<Longrightarrow>
     invoke self tp h =
       \<lparr>yielded = [TextMessage (''File with ID '' @ sq @ fid @ sq @ '' not found'')],
        raised = None, tool_after = self, heap_after = h\<rparr>"
  by (simp add: invoke_def Let_def create_text_message_def)

lemma invoke_target_required:
  "file_id_of tp = PyStr fid \<Longrightarrow> fid \<noteq> [] \<Longrightarrow> map_of (file_map self) (PyStr fid) = Some f \<Longrightarrow>
   \<not> truthy (target_of tp) \<Longrightarrow>
     invoke self tp h =
       \<lparr>yielded = [TextMessage ''Target is required''], raised = None,
        tool_after = self, heap_after = h\<rparr>"
  by (simp add: invoke_def Let_def create_text_message_def)

lemma invoke_self:
  "file_id_of tp = PyStr fid \<Longrightarrow> fid \<noteq> [] \<Longrightarrow> map_of (file_map self) (PyStr fid) = Some f \<Longrightarrow>
   target_of tp = PyStr ''self'' \<Longrightarrow>
     invoke self tp h =
       \<lparr>yielded = [self_message f], raised = None, tool_after = self, heap_after = h\<rparr>"
  by (simp add: invoke_def Let_def self_message_def)

lemma invoke_attribute_error:
  "file_id_of tp = PyStr fid \<Longrightarrow> fid \<noteq> [] \<Longrightarrow> map_of (file_map self) (PyStr fid) = Some f \<Longrightarrow>
   target_of tp = PyStr t \<Longrightarrow> t \<noteq> [] \<Longrightarrow> t \<noteq> ''self'' \<Longrightarrow> parameter_name_of tp = PyNone \<Longrightarrow>
     invoke self tp h =
       \<lparr>yielded = [], raised = Some AttributeError, tool_after = self, heap_after = h\<rparr>"
  by (simp add: invoke_def Let_def)

lemma invoke_named_tool:
  assumes "file_id_of tp = PyStr fid" and "fid \<noteq> []"
    and "map_of (file_map self) (PyStr fid) = Some f"
    and "target_of tp = PyStr t" and "t \<noteq> []" and "t \<noteq> ''self''"
    and "parameter_name_of tp = PyStr p"
  shows "invoke self tp h =
    (if tool_name_of t = [] then
       \<lparr>yielded = prefix_note t @ [TextMessage ''Tool name cannot be empty''],
        raised = None, tool_after = self, heap_after = h\<rparr>
     else if strip p = [] then
       \<lparr>yielded = prefix_note t @ [TextMessage ''Parameter name cannot be empty''],
        raised = None, tool_after = self, heap_after = h\<rparr>
     else
       \<lparr>yielded = prefix_note t @ [routed_message f (tool_name_of t) (strip p)],
        raised = None, tool_after = self,
        heap_after = store_file (tool_file_map self) (tool_name_of t) (strip p) f h\<rparr>)"
  unfolding invoke_def Let_def assms(1,4,7)
  using assms(2,3,5,6)
  by (simp add: tool_name_of_def prefix_note_def prefix_removed_def routed_message_def
      create_text_message_def startswith_def)




section \<open>The concrete inputs, evaluated\<close>

lemma arguments_simps:
  "file_id_of (arguments fid t p) = PyStr fid"
  "target_of (arguments fid t p) = PyStr t"
  "parameter_name_of (arguments fid t p) = PyStr p"
  by (simp_all add: arguments_def file_id_of_def target_of_def parameter_name_of_def get_default_def)

lemma init0: "init [report, slides] None empty_store = (tool0, store0)"
  by (simp add: tool0_def store0_def)

lemma files0: "distinct (map filename [report, slides])"
  by (simp add: report_def slides_def)

lemma tool0_resolves:
  "map_of (file_map tool0) (PyStr ''report.pdf'') = Some report"
  "map_of (file_map tool0) (PyStr ''slides.pptx'') = Some slides"
  "map_of (file_map tool0) (PyStr ''missing.txt'') = None"
  by (simp_all add: tool0_def init_def alloc_outer_def build_file_map_def report_def slides_def)

lemma tool0_table:
  "tool_file_map tool0 = 0" "outer_dicts store0 a = []" "next_addr store0 = 1"
  by (simp_all add: tool0_def store0_def init_def alloc_outer_def empty_store_def)

lemma strip_examples:
  "strip ''summarizer'' = ''summarizer''"
  "strip ''input_file'' = ''input_file''"
  "strip ''file'' = ''file''"
  "strip ''other'' = ''other''"
  "strip '' self '' = ''self''"
  "strip '' '' = []"
  "strip '' foo '' = ''foo''"
  "strip ''functions.'' = ''functions.''"
  "strip ''functions.   '' = ''functions.''"
  "strip ''functions.markdown_converter'' = ''functions.markdown_converter''"
  by (simp_all add: strip_def isspace_def whitespace_def)

lemma tool_name_examples:
  "tool_name_of ''summarizer'' = ''summarizer''" "prefix_note ''summarizer'' = []"
  "tool_name_of ''functions.summarizer'' = ''summarizer''"
  "tool_name_of '' self '' = ''self''" "prefix_note '' self '' = []"
  "tool_name_of '' foo '' = ''foo''" "prefix_note '' foo '' = []"
  "tool_name_of '' '' = []" "prefix_note '' '' = []"
  "tool_name_of ''functions.'' = []" "prefix_note ''functions.'' = [prefix_removed []]"
  "tool_name_of ''functions.   '' = []" "prefix_note ''functions.   '' = [prefix_removed []]"
  by (simp_all add: tool_name_of_def prefix_note_def startswith_def strip_def isspace_def
      whitespace_def)

lemma shared_tool_eq:
  "tool_file_map shared_tool = 1"
  "map_of (file_map shared_tool) (PyStr ''report.pdf'') = Some report"
  "outer_dicts shared_store 0 = []" "outer_dicts shared_store 1 = []"
  by (simp_all add: shared_tool_def shared_store_def init_def alloc_outer_def caller_store_def
      empty_store_def build_file_map_def report_def)


lemma nameless_tool_eq:
  "init [nameless] None empty_store = (nameless_tool, nameless_store)"
  "map_of (file_map nameless_tool) (PyStr []) = Some nameless"
  "tool_file_map nameless_tool = 0" "outer_dicts nameless_store a = []"
  by (simp_all add: nameless_tool_def nameless_store_def init_def alloc_outer_def empty_store_def
      build_file_map_def nameless_def)


section \<open>Routed delivery\<close>

text \<open>
  C1, with two conditions made explicit: the file id is non-empty, and \<open>T\<close> and \<open>P\<close> are
  the trimmed forms of the target and of the parameter name. For a catalog built from
  files with unique filenames, a non-empty file id that is the filename of a catalog
  file \<open>f\<close>, a target whose trimmed form \<open>T\<close> is non-empty, is not \<^verbatim>\<open>self\<close> and has no
  \<^verbatim>\<open>functions.\<close> prefix, and a parameter name whose trimmed form \<open>P\<close> is non-empty, the
  dispatch yields exactly the routed message carrying \<open>f\<close>, \<open>T\<close> and \<open>P\<close>, raises nothing,
  and leaves \<open>f\<close> at \<^verbatim>\<open>tool_file_map[T][P]\<close>: the inner dictionary of \<open>T\<close> is the earlier one
  (a new empty one if \<open>T\<close> was absent) with \<open>P\<close> set to \<open>f\<close>, whatever \<open>P\<close> held before.
\<close>

theorem dispatch_routes_file:
  assumes "distinct (map filename fs)" and "f \<in> set fs"
    and "filename f = PyStr fid" and "fid \<noteq> []"
    and "init fs tfm h0 = (self, h)"
    and "file_id_of tp = PyStr fid" and "target_of tp = PyStr t"
    and "parameter_name_of tp = PyStr p"
    and "strip t = T" and "T \<noteq> []" and "T \<noteq> ''self''" and "\<not> startswith T ''functions.''"
    and "strip p = P" and "P \<noteq> []"
  shows "yielded (invoke self tp h) = [routed_message f T P] \<and>
         raised (invoke self tp h) = None \<and>
         routing_entry (heap_after (invoke self tp h)) (tool_file_map self) T P = Some f \<and>
         inner_of (heap_after (invoke self tp h)) (tool_file_map self) T =
           Some (AList.update P f
                   (case inner_of h (tool_file_map self) T of None \<Rightarrow> [] | Some d \<Rightarrow> d))"
proof -
  have res: "map_of (file_map self) (PyStr fid) = Some f"
    using init_resolves [OF assms(5,1,2)] assms(3) by simp
  have t: "t \<noteq> []" "t \<noteq> ''self''"
    using assms(9,10,11) by (auto simp: strip_Nil strip_self)
  have T: "tool_name_of t = T" "prefix_note t = []"
    using assms(9,12) by (simp_all add: tool_name_of_def prefix_note_def)
  show ?thesis
    using invoke_named_tool [OF assms(6,4) res assms(7) t assms(8), of h] T assms(10,13,14)
    by (simp add: routing_entry_store_file inner_of_store_file)
qed

theorem dispatch_routes_file_witness:
  "distinct (map filename [report, slides]) \<and> report \<in> set [report, slides] \<and>
   init [report, slides] None empty_store = (tool0, store0) \<and>
   strip ''summarizer'' = ''summarizer'' \<and> strip ''input_file'' = ''input_file'' \<and>
   yielded (invoke tool0 (arguments ''report.pdf'' ''summarizer'' ''input_file'') store0)
     = [routed_message report ''summarizer'' ''input_file''] \<and>
   routing_entry
     (heap_after (invoke tool0 (arguments ''report.pdf'' ''summarizer'' ''input_file'') store0))
     (tool_file_map tool0) ''summarizer'' ''input_file'' = Some report"
proof -
  have m: "report \<in> set [report, slides]"
    by simp
  have n: "filename report = PyStr ''report.pdf''" "''report.pdf'' \<noteq> []"
    by (simp_all add: report_def)
  note a = arguments_simps [of "''report.pdf''" "''summarizer''" "''input_file''"]
  have s: "strip ''summarizer'' = ''summarizer''" "''summarizer'' \<noteq> []" "''summarizer'' \<noteq> ''self''"
     "\<not> startswith ''summarizer'' ''functions.''"
     "strip ''input_file'' = ''input_file''" "''input_file'' \<noteq> []"
    by (simp_all add: strip_examples startswith_def)
  from dispatch_routes_file [OF files0 m n init0 a s] files0 m init0 s show ?thesis
    by simp
qed

text \<open>
  Where the statement of C1 without the two conditions fails. The file id \<^verbatim>\<open>""\<close> is the
  filename of a catalog file, and line 135 answers that the file id is required. The tool
  name \<^verbatim>\<open>" "\<close> is non-empty, is not \<^verbatim>\<open>self\<close> and has no prefix, and line 165 answers that
  the tool name is empty. The tool name \<^verbatim>\<open>" foo "\<close> is written under \<^verbatim>\<open>foo\<close>, and the entry
  under \<^verbatim>\<open>" foo "\<close> stays absent. The parameter name \<^verbatim>\<open>" "\<close> is non-empty, and line 169
  answers that the parameter name is empty.
\<close>

theorem dispatch_routes_file_counterexample:
  "distinct (map filename [nameless]) \<and> filename nameless = PyStr [] \<and>
   init [nameless] None empty_store = (nameless_tool, nameless_store) \<and>
   yielded (invoke nameless_tool (arguments [] ''summarizer'' ''input_file'') nameless_store)
     = [TextMessage ''File ID is required''] \<and>
   routing_entry
     (heap_after (invoke nameless_tool (arguments [] ''summarizer'' ''input_file'') nameless_store))
     (tool_file_map nameless_tool) ''summarizer'' ''input_file'' = None \<and>
   '' '' \<noteq> [] \<and> '' '' \<noteq> ''self'' \<and> \<not> startswith '' '' ''functions.'' \<and>
   yielded (invoke tool0 (arguments ''report.pdf'' '' '' ''input_file'') store0)
     = [TextMessage ''Tool name cannot be empty''] \<and>
   routing_entry
     (heap_after (invoke tool0 (arguments ''report.pdf'' '' '' ''input_file'') store0))
     (tool_file_map tool0) '' '' ''input_file'' = None \<and>
   '' foo '' \<noteq> ''self'' \<and> \<not> startswith '' foo '' ''functions.'' \<and>
   yielded (invoke tool0 (arguments ''report.pdf'' '' foo '' ''input_file'') store0)
     = [routed_message report ''foo'' ''input_file''] \<and>
   routing_entry
     (heap_after (invoke tool0 (arguments ''report.pdf'' '' foo '' ''input_file'') store0))
     (tool_file_map tool0) '' foo '' ''input_file'' = None \<and>
   yielded (invoke tool0 (arguments ''report.pdf'' ''summarizer'' '' '') store0)
     = [TextMessage ''Parameter name cannot be empty''] \<and>
   routing_entry
     (heap_after (invoke tool0 (arguments ''report.pdf'' ''summarizer'' '' '') store0))
     (tool_file_map tool0) ''summarizer'' '' '' = None"
proof -
  have 1: "invoke nameless_tool (arguments [] ''summarizer'' ''input_file'') nameless_store =
      \<lparr>yielded = [TextMessage ''File ID is required''], raised = None,
       tool_after = nameless_tool, heap_after = nameless_store\<rparr>"
    by (rule invoke_file_id_required) (simp add: arguments_simps)
  have 2: "invoke tool0 (arguments ''report.pdf'' '' '' ''input_file'') store0 =
      \<lparr>yielded = [TextMessage ''Tool name cannot be empty''], raised = None,
       tool_after = tool0, heap_after = store0\<rparr>"
    using invoke_named_tool [OF arguments_simps(1) _ tool0_resolves(1) arguments_simps(2) _ _
        arguments_simps(3), of "'' ''" "''input_file''" store0]
    by (simp add: tool_name_examples)
  have 3: "invoke tool0 (arguments ''report.pdf'' '' foo '' ''input_file'') store0 =
      \<lparr>yielded = [routed_message report ''foo'' ''input_file''], raised = None,
       tool_after = tool0,
       heap_after = store_file (tool_file_map tool0) ''foo'' ''input_file'' report store0\<rparr>"
    using invoke_named_tool [OF arguments_simps(1) _ tool0_resolves(1) arguments_simps(2) _ _
        arguments_simps(3), of "'' foo ''" "''input_file''" store0]
    by (simp add: tool_name_examples strip_examples)
  have 4: "invoke tool0 (arguments ''report.pdf'' ''summarizer'' '' '') store0 =
      \<lparr>yielded = [TextMessage ''Parameter name cannot be empty''], raised = None,
       tool_after = tool0, heap_after = store0\<rparr>"
    using invoke_named_tool [OF arguments_simps(1) _ tool0_resolves(1) arguments_simps(2) _ _
        arguments_simps(3), of "''summarizer''" "'' ''" store0]
    by (simp add: tool_name_examples strip_examples)
  have none: "routing_entry store0 a T P = None" "routing_entry nameless_store a T P = None"
    for a T P
    by (simp_all add: routing_entry_def inner_of_def tool0_table nameless_tool_eq)
  have foo: "routing_entry
      (store_file (tool_file_map tool0) ''foo'' ''input_file'' report store0)
      (tool_file_map tool0) '' foo '' ''input_file'' = None"
    using outer_store_file_other_name [of "'' foo ''" "''foo''" "tool_file_map tool0"
        "''input_file''" report store0]
    by (simp add: routing_entry_def inner_of_def tool0_table)
  show ?thesis
    by (simp add: 1 2 3 4 none foo nameless_tool_eq startswith_def) (simp add: nameless_def)
qed


section \<open>Self delivery\<close>

text \<open>
  C2, with the file id non-empty. For a catalog built from files with unique filenames
  and a non-empty file id that is the filename of a catalog file \<open>f\<close>, the dispatch with
  target \<^verbatim>\<open>self\<close> yields exactly the self-delivery message carrying \<open>f\<close>, raises nothing
  and leaves the store as it was, whatever the parameter name is (given, left out or
  \<^verbatim>\<open>None\<close>); and \<open>f\<close> is the only catalog file with that filename.
\<close>

theorem dispatch_self_delivers:
  assumes "distinct (map filename fs)" and "f \<in> set fs"
    and "filename f = PyStr fid" and "fid \<noteq> []"
    and "init fs tfm h0 = (self, h)"
    and "file_id_of tp = PyStr fid" and "target_of tp = PyStr ''self''"
  shows "yielded (invoke self tp h) = [self_message f] \<and>
         raised (invoke self tp h) = None \<and>
         heap_after (invoke self tp h) = h \<and>
         (\<forall>g \<in> set fs. filename g = PyStr fid \<longrightarrow> g = f)"
proof -
  have res: "map_of (file_map self) (PyStr fid) = Some f"
    using init_resolves [OF assms(5,1,2)] assms(3) by simp
  have "inj_on filename (set fs)"
    using assms(1) by (simp add: distinct_map)
  then have "\<forall>g \<in> set fs. filename g = PyStr fid \<longrightarrow> g = f"
    using assms(2,3) by (metis inj_onD)
  then show ?thesis
    using invoke_self [OF assms(6,4) res assms(7), of h] by simp
qed

theorem dispatch_self_delivers_witness:
  "distinct (map filename [report, slides]) \<and> report \<in> set [report, slides] \<and>
   init [report, slides] None empty_store = (tool0, store0) \<and>
   yielded (invoke tool0 [(''file_id'', PyStr ''report.pdf''), (''target'', PyStr ''self'')] store0)
     = [self_message report] \<and>
   heap_after (invoke tool0 [(''file_id'', PyStr ''report.pdf''), (''target'', PyStr ''self'')] store0)
     = store0"
proof -
  have m: "report \<in> set [report, slides]"
    by simp
  have n: "filename report = PyStr ''report.pdf''" "''report.pdf'' \<noteq> []"
    by (simp_all add: report_def)
  have a: "file_id_of [(''file_id'', PyStr ''report.pdf''), (''target'', PyStr ''self'')] = PyStr ''report.pdf''"
    "target_of [(''file_id'', PyStr ''report.pdf''), (''target'', PyStr ''self'')] = PyStr ''self''"
    by (simp_all add: file_id_of_def target_of_def get_default_def)
  from dispatch_self_delivers [OF files0 m n init0 a] files0 m init0 show ?thesis
    by simp
qed

text \<open>
  Where the statement of C2 without the condition fails: the catalog is built from one
  file, its filename \<^verbatim>\<open>""\<close> is unique, the file id equals it, and the dispatch to
  \<^verbatim>\<open>self\<close> answers that the file id is required and delivers nothing.
\<close>

theorem dispatch_self_delivers_counterexample:
  "distinct (map filename [nameless]) \<and> nameless \<in> set [nameless] \<and>
   filename nameless = PyStr [] \<and>
   init [nameless] None empty_store = (nameless_tool, nameless_store) \<and>
   file_id_of (arguments [] ''self'' ''file'') = PyStr [] \<and>
   target_of (arguments [] ''self'' ''file'') = PyStr ''self'' \<and>
   yielded (invoke nameless_tool (arguments [] ''self'' ''file'') nameless_store)
     = [TextMessage ''File ID is required''] \<and>
   yielded (invoke nameless_tool (arguments [] ''self'' ''file'') nameless_store)
     \<noteq> [self_message nameless]"
proof -
  have 1: "invoke nameless_tool (arguments [] ''self'' ''file'') nameless_store =
      \<lparr>yielded = [TextMessage ''File ID is required''], raised = None,
       tool_after = nameless_tool, heap_after = nameless_store\<rparr>"
    by (rule invoke_file_id_required) (simp add: arguments_simps)
  show ?thesis
    by (simp add: 1 nameless_tool_eq arguments_simps self_message_def) (simp add: nameless_def)
qed


section \<open>Validation\<close>

text \<open>
  The failures of validation for a parameter name that is a string (given or defaulted),
  each under the condition that the earlier checks passed: the run ends with the
  diagnostic of that failure (after the note about the prefix, when the prefix was
  there), raises nothing, and the store is the one it started from.
\<close>

lemma invoke_validation_order:
  "(\<not> truthy (file_id_of tp) \<longrightarrow>
      yielded (invoke self tp h) = [TextMessage ''File ID is required''] \<and>
      raised (invoke self tp h) = None \<and> heap_after (invoke self tp h) = h) \<and>
   (file_id_of tp = PyStr fid \<and> fid \<noteq> [] \<and> map_of (file_map self) (PyStr fid) = None \<longrightarrow>
      yielded (invoke self tp h)
        = [TextMessage (''File with ID '' @ sq @ fid @ sq @ '' not found'')] \<and>
      raised (invoke self tp h) = None \<and> heap_after (invoke self tp h) = h) \<and>
   (file_id_of tp = PyStr fid \<and> fid \<noteq> [] \<and> map_of (file_map self) (PyStr fid) = Some f \<longrightarrow>
      (\<not> truthy (target_of tp) \<longrightarrow>
         yielded (invoke self tp h) = [TextMessage ''Target is required''] \<and>
         raised (invoke self tp h) = None \<and> heap_after (invoke self tp h) = h) \<and>
      (target_of tp = PyStr t \<and> t \<noteq> [] \<and> t \<noteq> ''self'' \<and> parameter_name_of tp = PyStr p \<longrightarrow>
         (tool_name_of t = [] \<longrightarrow>
            yielded (invoke self tp h)
              = prefix_note t @ [TextMessage ''Tool name cannot be empty''] \<and>
            raised (invoke self tp h) = None \<and> heap_after (invoke self tp h) = h) \<and>
         (tool_name_of t \<noteq> [] \<and> strip p = [] \<longrightarrow>
            yielded (invoke self tp h)
              = prefix_note t @ [TextMessage ''Parameter name cannot be empty''] \<and>
            raised (invoke self tp h) = None \<and> heap_after (invoke self tp h) = h)))"
  by (simp add: invoke_file_id_required invoke_not_found invoke_target_required
      invoke_named_tool)

text \<open>
  C3. The file id resolves, the target is \<^verbatim>\<open>functions.\<close>, whose tool name is empty after
  the prefix is removed, and \<^verbatim>\<open>parameter_name\<close> is bound to \<^verbatim>\<open>None\<close>: line 158 raises
  \<^verbatim>\<open>AttributeError\<close> before the check of line 165, and the run yields no diagnostic at
  all. With the parameter name left out, the same target gets the note and the diagnostic
  that the tool name is empty.
\<close>

theorem null_parameter_name_preempts_tool_name_check:
  "tool_name_of ''functions.'' = [] \<and>
   invoke tool0
     [(''file_id'', PyStr ''report.pdf''), (''target'', PyStr ''functions.''),
      (''parameter_name'', PyNone)] store0
   = \<lparr>yielded = [], raised = Some AttributeError, tool_after = tool0, heap_after = store0\<rparr> \<and>
   invoke tool0 [(''file_id'', PyStr ''report.pdf''), (''target'', PyStr ''functions.'')] store0
   = \<lparr>yielded = [prefix_removed [], TextMessage ''Tool name cannot be empty''], raised = None,
      tool_after = tool0, heap_after = store0\<rparr>"
proof -
  let ?tp = "[(''file_id'', PyStr ''report.pdf''), (''target'', PyStr ''functions.''),
      (''parameter_name'', PyNone)]"
  let ?tq = "[(''file_id'', PyStr ''report.pdf''), (''target'', PyStr ''functions.'')]"
  have a: "file_id_of ?tp = PyStr ''report.pdf''" "target_of ?tp = PyStr ''functions.''"
    "parameter_name_of ?tp = PyNone"
    by (simp_all add: file_id_of_def target_of_def parameter_name_of_def get_default_def)
  have b: "file_id_of ?tq = PyStr ''report.pdf''" "target_of ?tq = PyStr ''functions.''"
    "parameter_name_of ?tq = PyStr ''file''"
    by (simp_all add: file_id_of_def target_of_def parameter_name_of_def get_default_def)
  have 1: "invoke tool0 ?tp store0 =
      \<lparr>yielded = [], raised = Some AttributeError, tool_after = tool0, heap_after = store0\<rparr>"
    using invoke_attribute_error [OF a(1) _ tool0_resolves(1) a(2) _ _ a(3), of store0]
    by simp
  have 2: "invoke tool0 ?tq store0 =
      \<lparr>yielded = [prefix_removed [], TextMessage ''Tool name cannot be empty''], raised = None,
       tool_after = tool0, heap_after = store0\<rparr>"
    using invoke_named_tool [OF b(1) _ tool0_resolves(1) b(2) _ _ b(3), of store0]
    by (simp add: tool_name_examples)
  from 1 2 show ?thesis
    by (simp add: tool_name_examples)
qed


section \<open>The namespace prefix\<close>

text \<open>
  C7, with \<open>X\<close> read off the trimmed target and the parameter name a string. For a
  non-empty file id that the catalog resolves to \<open>f\<close>, a target whose trimmed form is
  \<^verbatim>\<open>functions.\<close> followed by \<open>X\<close>, and a parameter name that is a string (given or
  defaulted): when \<open>X\<close> and the trimmed parameter name are non-empty, the run yields the
  note naming \<open>X\<close>, then the routed message for \<open>X\<close>, raises nothing, and \<open>f\<close> is at
  \<^verbatim>\<open>tool_file_map[X][parameter name]\<close>; when \<open>X\<close> is empty the run yields the note, then the
  diagnostic that the tool name is empty, raises nothing and leaves the store as it was.
\<close>

theorem prefix_is_stripped:
  assumes "file_id_of tp = PyStr fid" and "fid \<noteq> []"
    and "map_of (file_map self) (PyStr fid) = Some f"
    and "target_of tp = PyStr t" and "strip t = ''functions.'' @ X"
    and "parameter_name_of tp = PyStr p"
  shows "(X \<noteq> [] \<and> strip p \<noteq> [] \<longrightarrow>
           yielded (invoke self tp h) = [prefix_removed X, routed_message f X (strip p)] \<and>
           raised (invoke self tp h) = None \<and>
           routing_entry (heap_after (invoke self tp h)) (tool_file_map self) X (strip p)
             = Some f) \<and>
         (X = [] \<longrightarrow>
           yielded (invoke self tp h)
             = [prefix_removed [], TextMessage ''Tool name cannot be empty''] \<and>
           raised (invoke self tp h) = None \<and>
           heap_after (invoke self tp h) = h)"
proof -
  have t: "t \<noteq> []" "t \<noteq> ''self''"
    using assms(5) by (auto simp: strip_Nil strip_self)
  have T: "tool_name_of t = X" "prefix_note t = [prefix_removed X]"
    using assms(5) by (simp_all add: tool_name_of_def prefix_note_def startswith_def)
  show ?thesis
    using invoke_named_tool [OF assms(1,2,3,4) t assms(6), of h] T
    by (simp add: routing_entry_store_file)
qed

theorem prefix_is_stripped_witness:
  "strip ''functions.markdown_converter'' = ''functions.'' @ ''markdown_converter'' \<and>
   yielded (invoke tool0 (arguments ''report.pdf'' ''functions.markdown_converter'' ''file'') store0)
     = [prefix_removed ''markdown_converter'', routed_message report ''markdown_converter'' ''file''] \<and>
   routing_entry
     (heap_after
        (invoke tool0 (arguments ''report.pdf'' ''functions.markdown_converter'' ''file'') store0))
     (tool_file_map tool0) ''markdown_converter'' ''file'' = Some report \<and>
   strip ''functions.'' = ''functions.'' @ [] \<and>
   yielded (invoke tool0 (arguments ''report.pdf'' ''functions.'' ''file'') store0)
     = [prefix_removed [], TextMessage ''Tool name cannot be empty''] \<and>
   heap_after (invoke tool0 (arguments ''report.pdf'' ''functions.'' ''file'') store0) = store0"
proof -
  have s1: "strip ''functions.markdown_converter'' = ''functions.'' @ ''markdown_converter''"
    and s2: "strip ''functions.'' = ''functions.'' @ []"
    by (simp_all add: strip_examples)
  have ne: "''report.pdf'' \<noteq> []"
    by simp
  note a1 = arguments_simps [of "''report.pdf''" "''functions.markdown_converter''" "''file''"]
  note a2 = arguments_simps [of "''report.pdf''" "''functions.''" "''file''"]
  from prefix_is_stripped [where h = store0, OF a1(1) ne tool0_resolves(1) a1(2) s1 a1(3)]
    prefix_is_stripped [where h = store0, OF a2(1) ne tool0_resolves(1) a2(2) s2 a2(3)] s1 s2
  show ?thesis
    by (simp add: strip_examples)
qed

text \<open>
  Where the statement of C7 on the untrimmed target fails: the target \<^verbatim>\<open>"functions.   "\<close>
  is \<^verbatim>\<open>functions.\<close> followed by three spaces, a non-empty \<open>X\<close>; line 157 trims it to
  \<^verbatim>\<open>functions.\<close>, and the run ends with the diagnostic that the tool name is empty and
  writes nothing.
\<close>

theorem prefix_is_stripped_counterexample:
  "''functions.   '' = ''functions.'' @ ''   '' \<and> ''   '' \<noteq> [] \<and>
   yielded (invoke tool0 (arguments ''report.pdf'' ''functions.   '' ''file'') store0)
     = [prefix_removed [], TextMessage ''Tool name cannot be empty''] \<and>
   heap_after (invoke tool0 (arguments ''report.pdf'' ''functions.   '' ''file'') store0) = store0 \<and>
   routing_entry
     (heap_after (invoke tool0 (arguments ''report.pdf'' ''functions.   '' ''file'') store0))
     (tool_file_map tool0) ''   '' ''file'' = None"
proof -
  have 1: "invoke tool0 (arguments ''report.pdf'' ''functions.   '' ''file'') store0 =
      \<lparr>yielded = [prefix_removed [], TextMessage ''Tool name cannot be empty''], raised = None,
       tool_after = tool0, heap_after = store0\<rparr>"
    using invoke_named_tool [OF arguments_simps(1) _ tool0_resolves(1) arguments_simps(2) _ _
        arguments_simps(3), of "''functions.   ''" "''file''" store0]
    by (simp add: tool_name_examples)
  show ?thesis
    by (simp add: 1 routing_entry_def inner_of_def tool0_table)
qed


section \<open>Two dispatches to the same pair\<close>

text \<open>
  C8. Two routed dispatches in sequence, of file ids that resolve to \<open>f1\<close> and \<open>f2\<close>, to
  the same tool name \<open>T\<close> and parameter name \<open>P\<close>: after the first the entry for \<open>T\<close>
  and \<open>P\<close> is \<open>f1\<close>, after the second it is \<open>f2\<close>, and no longer \<open>f1\<close> when the two
  files differ.
\<close>

theorem last_write_wins:
  assumes "file_id_of tp1 = PyStr fid1" and "fid1 \<noteq> []"
    and "map_of (file_map self) (PyStr fid1) = Some f1"
    and "file_id_of tp2 = PyStr fid2" and "fid2 \<noteq> []"
    and "map_of (file_map self) (PyStr fid2) = Some f2"
    and "target_of tp1 = PyStr t1" and "t1 \<noteq> ''self''" and "tool_name_of t1 = T"
    and "target_of tp2 = PyStr t2" and "t2 \<noteq> ''self''" and "tool_name_of t2 = T"
    and "T \<noteq> []"
    and "parameter_name_of tp1 = PyStr p1" and "strip p1 = P"
    and "parameter_name_of tp2 = PyStr p2" and "strip p2 = P"
    and "P \<noteq> []"
    and "r1 = invoke self tp1 h"
    and "r2 = invoke (tool_after r1) tp2 (heap_after r1)"
  shows "routing_entry (heap_after r1) (tool_file_map self) T P = Some f1 \<and>
         routing_entry (heap_after r2) (tool_file_map self) T P = Some f2 \<and>
         (f1 \<noteq> f2 \<longrightarrow> routing_entry (heap_after r2) (tool_file_map self) T P \<noteq> Some f1)"
proof -
  have ne: "t1 \<noteq> []" "t2 \<noteq> []"
    using assms(9,12,13) tool_name_of_nonempty [of t1] tool_name_of_nonempty [of t2] by simp_all
  have r1: "r1 = \<lparr>yielded = prefix_note t1 @ [routed_message f1 T P],
        raised = None, tool_after = self,
        heap_after = store_file (tool_file_map self) T P f1 h\<rparr>"
    using invoke_named_tool [OF assms(1,2,3,7) ne(1) assms(8,14), of h] assms(9,13,15,18,19)
    by simp
  then have s: "tool_after r1 = self"
    by simp
  have r2: "r2 = \<lparr>yielded = prefix_note t2 @ [routed_message f2 T P],
        raised = None, tool_after = self,
        heap_after = store_file (tool_file_map self) T P f2 (heap_after r1)\<rparr>"
    using invoke_named_tool [OF assms(4,5,6,10) ne(2) assms(11,16), of "heap_after r1"]
      assms(12,13,17,18,20) s
    by simp
  have 1: "routing_entry (heap_after r1) (tool_file_map self) T P = Some f1"
    by (simp add: r1 routing_entry_store_file)
  have 2: "routing_entry (heap_after r2) (tool_file_map self) T P = Some f2"
    by (simp add: r2 routing_entry_store_file)
  from 1 2 show ?thesis
    by simp
qed

theorem last_write_wins_witness:
  "tool_name_of ''summarizer'' = ''summarizer'' \<and> tool_name_of ''functions.summarizer'' = ''summarizer'' \<and>
   report \<noteq> slides \<and>
   routing_entry
     (heap_after (invoke tool0 (arguments ''report.pdf'' ''summarizer'' ''input_file'') store0))
     (tool_file_map tool0) ''summarizer'' ''input_file'' = Some report \<and>
   routing_entry
     (heap_after
        (invoke
           (tool_after (invoke tool0 (arguments ''report.pdf'' ''summarizer'' ''input_file'') store0))
           (arguments ''slides.pptx'' ''functions.summarizer'' ''input_file'')
           (heap_after (invoke tool0 (arguments ''report.pdf'' ''summarizer'' ''input_file'') store0))))
     (tool_file_map tool0) ''summarizer'' ''input_file'' = Some slides"
proof -
  note a1 = arguments_simps [of "''report.pdf''" "''summarizer''" "''input_file''"]
  note a2 = arguments_simps [of "''slides.pptx''" "''functions.summarizer''" "''input_file''"]
  have ne: "''report.pdf'' \<noteq> []" "''slides.pptx'' \<noteq> []" "''summarizer'' \<noteq> []"
    "''input_file'' \<noteq> []" "''summarizer'' \<noteq> ''self''" "''functions.summarizer'' \<noteq> ''self''"
    by simp_all
  note T = tool_name_examples(1) tool_name_examples(3)
  have d: "report \<noteq> slides"
    by (simp add: report_def slides_def)
  from last_write_wins [OF a1(1) ne(1) tool0_resolves(1) a2(1) ne(2) tool0_resolves(2)
      a1(2) ne(5) T(1) a2(2) ne(6) T(2) ne(3) a1(3) strip_examples(2) a2(3) strip_examples(2)
      ne(4) refl refl, of store0] T d
  show ?thesis
    by simp
qed


section \<open>The catalog\<close>

text \<open>
  C9. The constructor keeps the file sequence, the keys of the catalog are the
  filenames of the files, and a filename resolves to the last file of the sequence that
  has it: where two files share a filename, the later one. Lookup depends on the order
  of the sequence in no other way.
\<close>

theorem catalog_last_wins:
  "files (fst (init fs tfm h)) = fs \<and>
   fst ` set (file_map (fst (init fs tfm h))) = filename ` set fs \<and>
   map_of (file_map (fst (init fs tfm h))) k =
     (if filter (\<lambda>f. filename f = k) fs = [] then None
      else Some (last (filter (\<lambda>f. filename f = k) fs)))"
  using init_fields [of fs tfm h]
  by (simp add: keys_build_file_map map_of_build_file_map find_rev_last_filter)

theorem catalog_last_wins_witness:
  "filename report = filename report_v2 \<and> report \<noteq> report_v2 \<and>
   map_of (file_map (fst (init [report, slides, report_v2] None empty_store))) (PyStr ''report.pdf'')
     = Some report_v2 \<and>
   map_of (file_map (fst (init [report_v2, slides, report] None empty_store))) (PyStr ''report.pdf'')
     = Some report \<and>
   map_of (file_map (fst (init [report, slides, report_v2] None empty_store))) (PyStr ''slides.pptx'')
     = Some slides"
  using catalog_last_wins [of "[report, slides, report_v2]" None empty_store "PyStr ''report.pdf''"]
    catalog_last_wins [of "[report_v2, slides, report]" None empty_store "PyStr ''report.pdf''"]
    catalog_last_wins [of "[report, slides, report_v2]" None empty_store "PyStr ''slides.pptx''"]
  by (simp add: report_def slides_def report_v2_def)


section \<open>What a dispatch leaves alone\<close>





section \<open>Inputs on which the code leaves the documented behaviour\<close>

text \<open>
  C4. The docstring of the constructor calls \<^verbatim>\<open>tool_file_map\<close> the shared map. The
  caller makes an empty dictionary (address 0) and passes it in: the tool holds a new
  dictionary (address 1) instead, the routed dispatch writes there, and the caller's
  dictionary stays empty.
\<close>

theorem empty_supplied_table_is_replaced:
  "outer_dicts caller_store 0 = [] \<and> next_addr caller_store = 1 \<and>
   init [report] (Some 0) caller_store = (shared_tool, shared_store) \<and>
   tool_file_map shared_tool = 1 \<and>
   yielded (invoke shared_tool (arguments ''report.pdf'' ''summarizer'' ''input_file'') shared_store)
     = [routed_message report ''summarizer'' ''input_file''] \<and>
   routing_entry
     (heap_after
        (invoke shared_tool (arguments ''report.pdf'' ''summarizer'' ''input_file'') shared_store))
     1 ''summarizer'' ''input_file'' = Some report \<and>
   outer_dicts
     (heap_after
        (invoke shared_tool (arguments ''report.pdf'' ''summarizer'' ''input_file'') shared_store))
     0 = []"
proof -
  note a = arguments_simps [of "''report.pdf''" "''summarizer''" "''input_file''"]
  have c: "outer_dicts caller_store 0 = []" "next_addr caller_store = 1"
    by (simp_all add: caller_store_def alloc_outer_def empty_store_def)
  have i: "init [report] (Some 0) caller_store = (shared_tool, shared_store)"
    by (simp add: shared_tool_def shared_store_def)
  have r: "invoke shared_tool (arguments ''report.pdf'' ''summarizer'' ''input_file'') shared_store =
      \<lparr>yielded = [routed_message report ''summarizer'' ''input_file''],
       raised = None, tool_after = shared_tool,
       heap_after = store_file 1 ''summarizer'' ''input_file'' report shared_store\<rparr>"
    using invoke_named_tool [OF a(1) _ shared_tool_eq(2) a(2) _ _ a(3), of shared_store]
    by (simp add: tool_name_examples strip_examples shared_tool_eq(1))
  show ?thesis
    by (simp add: c i r shared_tool_eq routing_entry_store_file outer_store_file_other_table)
qed

text \<open>
  C5. The target \<^verbatim>\<open>" self "\<close> is compared with \<^verbatim>\<open>"self"\<close> before it is trimmed, so it
  takes the tool branch, where it is trimmed to \<^verbatim>\<open>self\<close>: the run yields a routed message
  for a tool named \<^verbatim>\<open>self\<close> and writes \<^verbatim>\<open>tool_file_map["self"]["file"]\<close>.
\<close>

theorem padded_self_is_routed:
  "strip '' self '' = ''self'' \<and>
   yielded (invoke tool0 [(''file_id'', PyStr ''report.pdf''), (''target'', PyStr '' self '')] store0)
     = [routed_message report ''self'' ''file''] \<and>
   routing_entry
     (heap_after
        (invoke tool0 [(''file_id'', PyStr ''report.pdf''), (''target'', PyStr '' self '')] store0))
     (tool_file_map tool0) ''self'' ''file'' = Some report \<and>
   routing_entry store0 (tool_file_map tool0) ''self'' ''file'' = None"
proof -
  have a: "file_id_of [(''file_id'', PyStr ''report.pdf''), (''target'', PyStr '' self '')] = PyStr ''report.pdf''"
    "target_of [(''file_id'', PyStr ''report.pdf''), (''target'', PyStr '' self '')] = PyStr '' self ''"
    "parameter_name_of [(''file_id'', PyStr ''report.pdf''), (''target'', PyStr '' self '')] = PyStr ''file''"
    by (simp_all add: file_id_of_def target_of_def parameter_name_of_def get_default_def)
  have r: "invoke tool0 [(''file_id'', PyStr ''report.pdf''), (''target'', PyStr '' self '')] store0 =
      \<lparr>yielded = [routed_message report ''self'' ''file''],
       raised = None, tool_after = tool0,
       heap_after = store_file (tool_file_map tool0) ''self'' ''file'' report store0\<rparr>"
    using invoke_named_tool [OF a(1) _ tool0_resolves(1) a(2) _ _ a(3), of store0]
    by (simp add: tool_name_examples strip_examples)
  show ?thesis
    by (simp add: r strip_examples routing_entry_store_file)
      (simp add: routing_entry_def inner_of_def tool0_table)
qed

text \<open>
  C6. With \<^verbatim>\<open>parameter_name\<close> bound to \<^verbatim>\<open>None\<close> and a target that names a tool, the run
  yields nothing and ends with \<^verbatim>\<open>AttributeError\<close>.
\<close>

theorem null_parameter_name_raises:
  "invoke tool0
     [(''file_id'', PyStr ''report.pdf''), (''target'', PyStr ''summarizer''),
      (''parameter_name'', PyNone)] store0
   = \<lparr>yielded = [], raised = Some AttributeError, tool_after = tool0, heap_after = store0\<rparr>"
proof -
  let ?tp = "[(''file_id'', PyStr ''report.pdf''), (''target'', PyStr ''summarizer''),
      (''parameter_name'', PyNone)]"
  have a: "file_id_of ?tp = PyStr ''report.pdf''" "target_of ?tp = PyStr ''summarizer''"
    "parameter_name_of ?tp = PyNone"
    by (simp_all add: file_id_of_def target_of_def parameter_name_of_def get_default_def)
  show ?thesis
    using invoke_attribute_error [OF a(1) _ tool0_resolves(1) a(2) _ _ a(3), of store0]
    by simp
qed

end
